theory Spec2Isabelle
  imports Main "HOL-Library.Word" "HOL-Library.FSet" "HOL-Library.Log_Nat"
begin

section \<open>Data model\<close>

text \<open>
  The exporter (\<^verbatim>\<open>export.go\<close>) keeps two global maps, \<^verbatim>\<open>allInfo\<close> and
  \<^verbatim>\<open>updatedDeploy\<close>, and two Prometheus gauge vectors. Below they are the four fields
  of one state record that every operation receives and returns. The mutex \<^verbatim>\<open>mu\<close> is
  not modelled: each operation is taken as one sequential step.
\<close>

type_synonym int64 = "64 word"

text \<open>\<^verbatim>\<open>type meta struct { name string; namespace string }\<close>\<close>

record meta =
  name :: string
  namespace :: string

text \<open>\<^verbatim>\<open>containerStartupInfo\<close> of \<^verbatim>\<open>api.go\<close>.\<close>

record containerStartupInfo =
  Name :: string
  Namespace :: string
  Start :: int64
  End :: int64
  Type :: string

subsection \<open>The float64 values handed to the gauges\<close>

text \<open>
  Go's \<^verbatim>\<open>float64\<close> is IEEE 754 binary64 with round-to-nearest, ties-to-even. A finite
  value is kept as the rational it denotes. The code only converts integers, adds to a
  total that starts at \<^verbatim>\<open>+0\<close> and divides by a converted positive count, so a negative
  zero never arises and zero is kept unsigned.
\<close>

datatype float64 = Finite rat | PosInf | NegInf | NaN

definition pow2 :: "int \<Rightarrow> rat" where
  "pow2 e = (if 0 \<le> e then 2 ^ nat e else 1 / 2 ^ nat (- e))"

text \<open>\<open>ilog2 a\<close> is the integer \<open>e\<close> with \<open>2 ^ e \<le> a < 2 ^ (e + 1)\<close>, for \<open>a > 0\<close>.\<close>

definition ilog2 :: "rat \<Rightarrow> int" where
  "ilog2 a =
     (if 1 \<le> a then int (floorlog 2 (nat \<lfloor>a\<rfloor>)) - 1
      else - int (floorlog 2 (nat (\<lceil>1 / a\<rceil> - 1))))"

definition round_half_even :: "rat \<Rightarrow> int" where
  "round_half_even r =
     (let f = \<lfloor>r\<rfloor>; d = r - of_int f
      in if d < 1 / 2 then f
         else if 1 / 2 < d then f + 1
         else if even f then f else f + 1)"

text \<open>
  Rounding a rational to binary64: 53 significant bits, the least exponent of a normal
  number is \<open>-1022\<close> (below it the spacing stays \<open>2 ^ -1074\<close>), and a result of
  magnitude \<open>2 ^ 1024\<close> or more is an infinity.
\<close>

definition round_binary64 :: "rat \<Rightarrow> float64" where
  "round_binary64 x =
     (if x = 0 then Finite 0
      else let a = \<bar>x\<bar>;
               q = max (ilog2 a) (- 1022) - 52;
               r = of_int (round_half_even (a / pow2 q)) * pow2 q
           in if pow2 1024 \<le> r then (if 0 < x then PosInf else NegInf)
              else Finite (if 0 < x then r else - r))"

text \<open>The conversion \<^verbatim>\<open>float64(i)\<close> of an integer.\<close>

definition f64_of_int :: "int \<Rightarrow> float64" where
  "f64_of_int i = round_binary64 (of_int i)"

text \<open>\<^verbatim>\<open>x + y\<close> on float64.\<close>

fun f64_add :: "float64 \<Rightarrow> float64 \<Rightarrow> float64" where
  "f64_add NaN _ = NaN"
| "f64_add _ NaN = NaN"
| "f64_add PosInf NegInf = NaN"
| "f64_add NegInf PosInf = NaN"
| "f64_add PosInf _ = PosInf"
| "f64_add _ PosInf = PosInf"
| "f64_add NegInf _ = NegInf"
| "f64_add _ NegInf = NegInf"
| "f64_add (Finite a) (Finite b) = round_binary64 (a + b)"

text \<open>\<^verbatim>\<open>x / y\<close> on float64; Go does not panic on a float division by zero.\<close>

fun f64_div :: "float64 \<Rightarrow> float64 \<Rightarrow> float64" where
  "f64_div NaN _ = NaN"
| "f64_div _ NaN = NaN"
| "f64_div PosInf (Finite b) = (if 0 \<le> b then PosInf else NegInf)"
| "f64_div NegInf (Finite b) = (if 0 \<le> b then NegInf else PosInf)"
| "f64_div (Finite a) (Finite b) =
     (if b = 0 then (if a = 0 then NaN else if 0 < a then PosInf else NegInf)
      else round_binary64 (a / b))"
| "f64_div (Finite a) _ = Finite 0"
| "f64_div _ _ = NaN"

subsection \<open>Kubernetes objects, as far as the exporter reads them\<close>

text \<open>\<^verbatim>\<open>corev1.ContainerStatus\<close>: the fields \<^verbatim>\<open>Name\<close> and \<^verbatim>\<open>ContainerID\<close>.\<close>

record containerStatus =
  cs_Name :: string
  cs_ContainerID :: string

text \<open>
  \<^verbatim>\<open>corev1.Pod\<close>: \<^verbatim>\<open>Name\<close>, \<^verbatim>\<open>Namespace\<close>, \<^verbatim>\<open>Spec.Containers\<close> (only its length is
  read, so a container is its name) and \<^verbatim>\<open>Status.ContainerStatuses\<close>.
\<close>

record pod =
  pod_Name :: string
  pod_Namespace :: string
  pod_Spec_Containers :: "string list"
  pod_Status_ContainerStatuses :: "containerStatus list"

text \<open>
  \<^verbatim>\<open>appsv1.Deployment\<close>: \<^verbatim>\<open>Name\<close>, \<^verbatim>\<open>Namespace\<close> and \<^verbatim>\<open>Spec.Selector\<close>, a pointer
  that may be nil, to the match labels.
\<close>

record deployment =
  deploy_Name :: string
  deploy_Namespace :: string
  deploy_Spec_Selector :: "(string \<times> string) list option"

text \<open>
  The global variables of \<^verbatim>\<open>export.go\<close>. A gauge vector maps the label values
  \<^verbatim>\<open>(deploy_name, namespace)\<close> to the last value set.
\<close>

record state =
  allInfo :: "meta \<rightharpoonup> containerStartupInfo"
  updatedDeploy :: "meta \<rightharpoonup> string fset"
  deployPodsAvgStartupLatency :: "string \<times> string \<rightharpoonup> float64"
  deployScaleLatency :: "string \<times> string \<rightharpoonup> float64"

definition defaultContainerdK8sNamespace :: string where
  "defaultContainerdK8sNamespace = ''k8s.io''"

definition containerNamePrefix :: string where
  "containerNamePrefix = ''containerd://''"

definition maxContainerNameLength :: nat where
  "maxContainerNameLength = 10"

definition MaxInt64 :: int64 where
  "MaxInt64 = 9223372036854775807"

section \<open>String helpers of the Go library\<close>

text \<open>\<^verbatim>\<open>strings.HasPrefix(s, prefix)\<close>\<close>

definition HasPrefix :: "string \<Rightarrow> string \<Rightarrow> bool" where
  "HasPrefix s p = (length p \<le> length s \<and> take (length p) s = p)"

text \<open>\<^verbatim>\<open>strings.TrimPrefix(s, prefix)\<close>\<close>

definition TrimPrefix :: "string \<Rightarrow> string \<Rightarrow> string" where
  "TrimPrefix s p = (if HasPrefix s p then drop (length p) s else s)"

text \<open>\<^verbatim>\<open>strings.Trim(s, cutset)\<close>: leading and trailing characters of the cutset removed.\<close>

definition Trim :: "string \<Rightarrow> string \<Rightarrow> string" where
  "Trim s cutset =
     rev (dropWhile (\<lambda>c. c \<in> set cutset) (rev (dropWhile (\<lambda>c. c \<in> set cutset) s)))"

definition containerShortName :: "string \<Rightarrow> string" where
  "containerShortName n =
     (if maxContainerNameLength < length n then take maxContainerNameLength n else n)"

section \<open>Record ingestion\<close>

text \<open>
  A request as \<^verbatim>\<open>receiveStartupInfo\<close> reads it: the method, and what
  \<^verbatim>\<open>json.NewDecoder(r.Body).Decode(&info)\<close> yields (\<open>None\<close> when decoding fails).
\<close>

record request =
  req_Method :: string
  req_Body :: "containerStartupInfo option"

definition StatusOK :: nat where "StatusOK = 200"
definition StatusBadRequest :: nat where "StatusBadRequest = 400"

definition receiveStartupInfo :: "state \<Rightarrow> request \<Rightarrow> state \<times> nat" where
  "receiveStartupInfo st r =
     (if req_Method r \<noteq> ''POST'' then (st, StatusBadRequest)
      else case req_Body r of
        None \<Rightarrow> (st, StatusBadRequest)
      | Some info \<Rightarrow>
          let m = \<lparr>name = Name info, namespace = Namespace info\<rparr>
          in ((if allInfo st m = None then st\<lparr>allInfo := (allInfo st)(m \<mapsto> info)\<rparr> else st),
              StatusOK))"

text \<open>A sequence of requests served one after the other; the statuses answered, in order.\<close>

fun receiveAll :: "state \<Rightarrow> request list \<Rightarrow> state \<times> nat list" where
  "receiveAll st [] = (st, [])"
| "receiveAll st (r # rs) =
     (let (st1, code) = receiveStartupInfo st r;
          (st2, codes) = receiveAll st1 rs
      in (st2, code # codes))"

text \<open>A well-formed push: a POST whose body decodes to \<open>info\<close>.\<close>

definition push :: "containerStartupInfo \<Rightarrow> request" where
  "push info = \<lparr>req_Method = ''POST'', req_Body = Some info\<rparr>"

text \<open>The identity under which \<^verbatim>\<open>receiveStartupInfo\<close> files a record.\<close>

definition identity :: "containerStartupInfo \<Rightarrow> meta" where
  "identity info = \<lparr>name = Name info, namespace = Namespace info\<rparr>"

section \<open>The gate: \<^verbatim>\<open>shouldUpdate\<close>\<close>

text \<open>
  \<^verbatim>\<open>getPodNames\<close>: the names of the non-nil pods. A Go \<^verbatim>\<open>map[string]struct{}\<close> is a
  finite set of strings; a \<^verbatim>\<open>[]*corev1.Pod\<close> is a list of optional pods.
\<close>

fun getPodNamesLoop :: "pod option list \<Rightarrow> string fset \<Rightarrow> string fset" where
  "getPodNamesLoop [] podNames = podNames"
| "getPodNamesLoop (None # ps) podNames = getPodNamesLoop ps podNames"
| "getPodNamesLoop (Some p # ps) podNames = getPodNamesLoop ps (finsert (pod_Name p) podNames)"

definition getPodNames :: "pod option list \<Rightarrow> string fset" where
  "getPodNames pods = getPodNamesLoop pods {||}"

text \<open>
  \<^verbatim>\<open>equal\<close>: false when the lengths differ or some key of \<open>a\<close> is missing from \<open>b\<close>,
  true otherwise. The order in which Go ranges over the map does not change the answer.
\<close>

definition equal :: "string fset \<Rightarrow> string fset \<Rightarrow> bool" where
  "equal a b = (if fcard a \<noteq> fcard b then False else (\<forall>k \<in> fset a. k |\<in>| b))"

text \<open>
  The inner loop of \<^verbatim>\<open>shouldUpdate\<close> over the container statuses of one pod: true when
  it meets a status whose \<^verbatim>\<open>strings.Trim(c.ContainerID, " ")\<close> is empty.
\<close>

fun notRunning :: "containerStatus list \<Rightarrow> bool" where
  "notRunning [] = False"
| "notRunning (c # cs) = (if Trim (cs_ContainerID c) '' '' = [] then True else notRunning cs)"

text \<open>
  The outer loop of \<^verbatim>\<open>shouldUpdate\<close>; \<open>None\<close> is its early \<^verbatim>\<open>return false\<close>, \<open>Some\<close> the
  pod names collected when it runs to the end.
\<close>

fun currentPodNamesLoop :: "pod option list \<Rightarrow> string fset \<Rightarrow> string fset option" where
  "currentPodNamesLoop [] currentPodNames = Some currentPodNames"
| "currentPodNamesLoop (None # ps) currentPodNames = currentPodNamesLoop ps currentPodNames"
| "currentPodNamesLoop (Some p # ps) currentPodNames =
     (if length (pod_Status_ContainerStatuses p) = 0 then None
      else if notRunning (pod_Status_ContainerStatuses p) then None
      else currentPodNamesLoop ps (finsert (pod_Name p) currentPodNames))"

definition shouldUpdate :: "state \<Rightarrow> meta \<Rightarrow> pod option list \<Rightarrow> bool" where
  "shouldUpdate st m currentPods =
     (if length currentPods = 0 then False
      else case currentPodNamesLoop currentPods {||} of
        None \<Rightarrow> False
      | Some currentPodNames \<Rightarrow>
          (case updatedDeploy st m of
             None \<Rightarrow> True
           | Some lastPodNames \<Rightarrow> \<not> equal lastPodNames currentPodNames))"

section \<open>The aggregator: \<^verbatim>\<open>doUpdate\<close>\<close>

text \<open>The local variables of \<^verbatim>\<open>doUpdate\<close> that its loops change.\<close>

record locals =
  targetLen :: int
  total :: float64
  startTimestamp :: int64
  endTimestamp :: int64
  unreceivedNames :: "string list"

text \<open>
  The one error \<^verbatim>\<open>doUpdate\<close> returns, with the four values its message is formatted
  from: container name, container ID, pod name, pod namespace.
\<close>

datatype error = NotRunningByContainerd string string string string

definition initLocals :: locals where
  "initLocals = \<lparr>targetLen = 0, total = Finite 0, startTimestamp = MaxInt64,
                  endTimestamp = 0, unreceivedNames = []\<rparr>"

text \<open>
  The body of the inner loop when the record \<open>info\<close> is in the store. The comparisons
  of the timestamps are signed; the subtraction is the wrapping one of \<^verbatim>\<open>int64\<close>.
\<close>

definition received :: "bool \<Rightarrow> containerStartupInfo \<Rightarrow> locals \<Rightarrow> locals" where
  "received oldPod info l =
     (let l1 = (if \<not> oldPod
                then (let l0 = (if sint (Start info) < sint (startTimestamp l)
                                then l\<lparr>startTimestamp := Start info\<rparr> else l)
                      in if sint (endTimestamp l0) < sint (End info)
                         then l0\<lparr>endTimestamp := End info\<rparr> else l0)
                else l)
      in l1\<lparr>total := f64_add (total l1) (f64_of_int (sint (End info - Start info)))\<rparr>)"

text \<open>The inner loop of \<^verbatim>\<open>doUpdate\<close>, over the container statuses of the pod \<open>p\<close>.\<close>

fun statusLoop ::
  "state \<Rightarrow> pod \<Rightarrow> bool \<Rightarrow> containerStatus list \<Rightarrow> locals \<Rightarrow> error + locals" where
  "statusLoop st p oldPod [] l = Inr l"
| "statusLoop st p oldPod (c # cs) l =
     (if HasPrefix (cs_ContainerID c) containerNamePrefix
      then (let n = TrimPrefix (cs_ContainerID c) containerNamePrefix
            in case allInfo st \<lparr>name = n, namespace = defaultContainerdK8sNamespace\<rparr> of
                 Some info \<Rightarrow> statusLoop st p oldPod cs (received oldPod info l)
               | None \<Rightarrow>
                   statusLoop st p oldPod cs
                     (l\<lparr>unreceivedNames := unreceivedNames l @ [containerShortName n]\<rparr>))
      else Inl (NotRunningByContainerd (cs_Name c) (cs_ContainerID c)
                  (pod_Name p) (pod_Namespace p)))"

text \<open>The outer loop of \<^verbatim>\<open>doUpdate\<close>, over the pods.\<close>

fun podLoop :: "state \<Rightarrow> string fset \<Rightarrow> pod option list \<Rightarrow> locals \<Rightarrow> error + locals" where
  "podLoop st lastPodNames [] l = Inr l"
| "podLoop st lastPodNames (None # ps) l = podLoop st lastPodNames ps l"
| "podLoop st lastPodNames (Some p # ps) l =
     (let l1 = l\<lparr>targetLen := targetLen l + int (length (pod_Spec_Containers p))\<rparr>;
          oldPod = pod_Name p |\<in>| lastPodNames
      in case statusLoop st p oldPod (pod_Status_ContainerStatuses p) l1 of
           Inl e \<Rightarrow> Inl e
         | Inr l2 \<Rightarrow> podLoop st lastPodNames ps l2)"

definition lastPodNamesOf :: "state \<Rightarrow> deployment \<Rightarrow> string fset" where
  "lastPodNamesOf st deploy =
     (case updatedDeploy st \<lparr>name = deploy_Name deploy, namespace = deploy_Namespace deploy\<rparr> of
        Some l \<Rightarrow> l
      | None \<Rightarrow> {||})"

definition receivedLen :: "locals \<Rightarrow> int" where
  "receivedLen l = targetLen l - int (length (unreceivedNames l))"

text \<open>What \<^verbatim>\<open>doUpdate\<close> does after its loops.\<close>

definition publish :: "state \<Rightarrow> deployment \<Rightarrow> locals \<Rightarrow> state \<times> bool \<times> error option" where
  "publish st deploy l =
     (if receivedLen l = 0 then (st, False, None)
      else if receivedLen l \<noteq> targetLen l then (st, False, None)
      else
        let avg = f64_div (total l) (f64_of_int (receivedLen l));
            labels = (deploy_Name deploy, deploy_Namespace deploy);
            st1 = st\<lparr>deployPodsAvgStartupLatency :=
                        (deployPodsAvgStartupLatency st)(labels \<mapsto> avg)\<rparr>;
            st2 = (if sint (startTimestamp l) < sint (endTimestamp l)
                   then st1\<lparr>deployScaleLatency :=
                          (deployScaleLatency st1)
                            (labels \<mapsto> f64_of_int (sint (endTimestamp l - startTimestamp l)))\<rparr>
                   else st1)
        in (st2, True, None))"

definition doUpdate :: "state \<Rightarrow> deployment \<Rightarrow> pod option list \<Rightarrow> state \<times> bool \<times> error option" where
  "doUpdate st deploy pods =
     (case podLoop st (lastPodNamesOf st deploy) pods initLocals of
        Inl e \<Rightarrow> (st, False, Some e)
      | Inr l \<Rightarrow> publish st deploy l)"

section \<open>The scheduler: one deployment, one cycle\<close>

text \<open>
  The body of the loop over the deployments in \<^verbatim>\<open>updateDeployScaleLatency\<close>. The pod
  lister belongs to the cluster client: \<open>pods\<close> is the list it returned for the
  deployment (an error of the lister is logged and the list is used as it is).
\<close>

definition visitDeployment :: "state \<Rightarrow> deployment option \<Rightarrow> pod option list \<Rightarrow> state" where
  "visitDeployment st d pods =
     (case d of
        None \<Rightarrow> st
      | Some d \<Rightarrow>
          let m = \<lparr>name = deploy_Name d, namespace = deploy_Namespace d\<rparr>
          in if deploy_Spec_Selector d = None then st
             else if \<not> shouldUpdate st m pods then st
             else (case doUpdate st d pods of
                     (st1, updated, Some err) \<Rightarrow> st1
                   | (st1, updated, None) \<Rightarrow>
                       if updated
                       then st1\<lparr>updatedDeploy := (updatedDeploy st1)(m \<mapsto> getPodNames pods)\<rparr>
                       else st1))"

text \<open>One pass over the listed deployments, each with the pods listed for it.\<close>

fun cycle :: "state \<Rightarrow> (deployment option \<times> pod option list) list \<Rightarrow> state" where
  "cycle st [] = st"
| "cycle st ((d, pods) # ds) = cycle (visitDeployment st d pods) ds"

section \<open>Predicates the claims are stated with\<close>

text \<open>
  The settledness check of the gate for one pod, as the code makes it: the pod reports
  at least one container status, and no status has a container ID that
  \<^verbatim>\<open>strings.Trim(_, " ")\<close> empties.
\<close>

definition settled :: "pod \<Rightarrow> bool" where
  "settled p =
     (pod_Status_ContainerStatuses p \<noteq> [] \<and>
      list_all (\<lambda>c. Trim (cs_ContainerID c) '' '' \<noteq> []) (pod_Status_ContainerStatuses p))"

definition allSettled :: "pod option list \<Rightarrow> bool" where
  "allSettled pods = list_all (\<lambda>p. case p of None \<Rightarrow> True | Some p \<Rightarrow> settled p) pods"

text \<open>
  The white space characters of ASCII (those of Go's \<^verbatim>\<open>unicode.IsSpace\<close> below 128):
  tab, line feed, vertical tab, form feed, carriage return and space.
\<close>

definition whitespace :: "char set" where
  "whitespace = {CHR 0x09, CHR 0x0A, CHR 0x0B, CHR 0x0C, CHR 0x0D, CHR 0x20}"

text \<open>
  The quantities of the aggregator, as the specification words them. The live pods are
  the non-nil entries of the list; \<open>targetCount\<close> sums the containers their specs
  declare. \<open>lookedUp\<close> lists, for every container status of every live pod in the order
  of the scan, whether the pod is new (its name is not in the tracked set) and what the
  Record Store holds under the ID stripped of the prefix, in the runtime namespace.
\<close>

definition livePods :: "pod option list \<Rightarrow> pod list" where
  "livePods pods = concat (map (\<lambda>p. case p of None \<Rightarrow> [] | Some p \<Rightarrow> [p]) pods)"

definition targetCount :: "pod option list \<Rightarrow> int" where
  "targetCount pods = sum_list (map (\<lambda>p. int (length (pod_Spec_Containers p))) (livePods pods))"

definition lookupKey :: "containerStatus \<Rightarrow> meta" where
  "lookupKey c = \<lparr>name = TrimPrefix (cs_ContainerID c) containerNamePrefix,
                  namespace = defaultContainerdK8sNamespace\<rparr>"

definition lookedUp ::
  "state \<Rightarrow> string fset \<Rightarrow> pod option list \<Rightarrow> (bool \<times> containerStartupInfo option) list" where
  "lookedUp st lastPodNames pods =
     concat (map (\<lambda>p. map (\<lambda>c. (pod_Name p |\<notin>| lastPodNames, allInfo st (lookupKey c)))
                          (pod_Status_ContainerStatuses p))
                 (livePods pods))"

definition foundAll :: "(bool \<times> containerStartupInfo option) list \<Rightarrow> containerStartupInfo list" where
  "foundAll ls = concat (map (\<lambda>(new, r). case r of None \<Rightarrow> [] | Some i \<Rightarrow> [i]) ls)"

definition foundNew :: "(bool \<times> containerStartupInfo option) list \<Rightarrow> containerStartupInfo list" where
  "foundNew ls =
     concat (map (\<lambda>(new, r). case r of None \<Rightarrow> [] | Some i \<Rightarrow> if new then [i] else []) ls)"

definition unreceivedCount :: "(bool \<times> containerStartupInfo option) list \<Rightarrow> nat" where
  "unreceivedCount ls = length (filter (\<lambda>(new, r). r = None) ls)"

text \<open>
  The window bounds and the total, folded over a list of records from the initial values
  of \<^verbatim>\<open>doUpdate\<close>: \<^verbatim>\<open>math.MaxInt64\<close>, \<^verbatim>\<open>0\<close> and \<^verbatim>\<open>0.0\<close>.
\<close>

definition earlier :: "int64 \<Rightarrow> containerStartupInfo \<Rightarrow> int64" where
  "earlier m i = (if sint (Start i) < sint m then Start i else m)"

definition later :: "int64 \<Rightarrow> containerStartupInfo \<Rightarrow> int64" where
  "later m i = (if sint m < sint (End i) then End i else m)"

definition addLatency :: "float64 \<Rightarrow> containerStartupInfo \<Rightarrow> float64" where
  "addLatency t i = f64_add t (f64_of_int (sint (End i - Start i)))"

definition minStart :: "containerStartupInfo list \<Rightarrow> int64" where
  "minStart infos = foldl earlier MaxInt64 infos"

definition maxEnd :: "containerStartupInfo list \<Rightarrow> int64" where
  "maxEnd infos = foldl later 0 infos"

definition totalLatency :: "containerStartupInfo list \<Rightarrow> float64" where
  "totalLatency infos = foldl addLatency (Finite 0) infos"

text \<open>Every container status of every live pod has an ID with the transport prefix.\<close>

definition allPrefixed :: "pod option list \<Rightarrow> bool" where
  "allPrefixed pods =
     list_all (\<lambda>p. list_all (\<lambda>c. HasPrefix (cs_ContainerID c) containerNamePrefix)
                              (pod_Status_ContainerStatuses p))
              (livePods pods)"

text \<open>\<open>receivedCount = targetCount - unreceivedCount\<close>\<close>

definition receivedCount :: "state \<Rightarrow> string fset \<Rightarrow> pod option list \<Rightarrow> int" where
  "receivedCount st lastPodNames pods =
     targetCount pods - int (unreceivedCount (lookedUp st lastPodNames pods))"

text \<open>
  The records the scan of a deployment's pods finds in the store: all of them, and those
  of the containers of new pods.
\<close>

definition foundRecords :: "state \<Rightarrow> deployment \<Rightarrow> pod option list \<Rightarrow> containerStartupInfo list" where
  "foundRecords st d pods = foundAll (lookedUp st (lastPodNamesOf st d) pods)"

definition newRecords :: "state \<Rightarrow> deployment \<Rightarrow> pod option list \<Rightarrow> containerStartupInfo list" where
  "newRecords st d pods = foundNew (lookedUp st (lastPodNamesOf st d) pods)"

text \<open>
  The startup latencies as integers, and records with plausible timestamps: none is
  negative and no record ends before it starts.
\<close>

definition durations :: "containerStartupInfo list \<Rightarrow> int list" where
  "durations infos = map (\<lambda>i. sint (End i) - sint (Start i)) infos"

definition wellTimed :: "containerStartupInfo list \<Rightarrow> bool" where
  "wellTimed infos = list_all (\<lambda>i. 0 \<le> sint (Start i) \<and> sint (Start i) \<le> sint (End i)) infos"

section \<open>Example inputs\<close>

text \<open>Concrete values at which the theorems below are instantiated.\<close>

definition emptyState :: state where
  "emptyState = \<lparr>allInfo = Map.empty, updatedDeploy = Map.empty,
                  deployPodsAvgStartupLatency = Map.empty, deployScaleLatency = Map.empty\<rparr>"

definition recA :: containerStartupInfo where
  "recA = \<lparr>Name = ''c1'', Namespace = ''k8s.io'', Start = 100, End = 150, Type = ''default''\<rparr>"

text \<open>A second record under the identity of \<open>recA\<close>.\<close>

definition recA' :: containerStartupInfo where
  "recA' = \<lparr>Name = ''c1'', Namespace = ''k8s.io'', Start = 500, End = 900, Type = ''checkpoint''\<rparr>"

definition recB :: containerStartupInfo where
  "recB = \<lparr>Name = ''c2'', Namespace = ''k8s.io'', Start = 200, End = 260, Type = ''default''\<rparr>"

definition storeA :: state where
  "storeA = emptyState\<lparr>allInfo := [identity recA \<mapsto> recA]\<rparr>"

definition depKey :: meta where
  "depKey = \<lparr>name = ''web'', namespace = ''ns''\<rparr>"

definition web :: deployment where
  "web = \<lparr>deploy_Name = ''web'', deploy_Namespace = ''ns'', deploy_Spec_Selector = Some [(''app'', ''web'')]\<rparr>"

text \<open>A state in which the pod names \<open>names\<close> are tracked for the deployment \<open>web\<close>.\<close>

definition tracked :: "state \<Rightarrow> string fset \<Rightarrow> state" where
  "tracked st names = st\<lparr>updatedDeploy := [depKey \<mapsto> names]\<rparr>"

definition podA :: pod where
  "podA = \<lparr>pod_Name = ''p1'', pod_Namespace = ''ns'', pod_Spec_Containers = [''app''],
            pod_Status_ContainerStatuses =
              [\<lparr>cs_Name = ''app'', cs_ContainerID = ''containerd://c1''\<rparr>]\<rparr>"

text \<open>A pod whose only container ID is two spaces, and one whose only container ID is a tab.\<close>

definition spacePod :: pod where
  "spacePod = \<lparr>pod_Name = ''p6'', pod_Namespace = ''ns'', pod_Spec_Containers = [''app''],
                pod_Status_ContainerStatuses = [\<lparr>cs_Name = ''app'', cs_ContainerID = ''  ''\<rparr>]\<rparr>"

definition tabPod :: pod where
  "tabPod = \<lparr>pod_Name = ''p3'', pod_Namespace = ''ns'', pod_Spec_Containers = [''app''],
              pod_Status_ContainerStatuses = [\<lparr>cs_Name = ''app'', cs_ContainerID = [CHR 0x09]\<rparr>]\<rparr>"

text \<open>A store holding \<open>recA\<close> and \<open>recB\<close>, whose (start, end) are (100, 150) and (200, 260).\<close>

definition storeAB :: state where
  "storeAB = emptyState\<lparr>allInfo := [identity recA \<mapsto> recA, identity recB \<mapsto> recB]\<rparr>"

definition podB :: pod where
  "podB = \<lparr>pod_Name = ''p2'', pod_Namespace = ''ns'', pod_Spec_Containers = [''app''],
            pod_Status_ContainerStatuses =
              [\<lparr>cs_Name = ''app'', cs_ContainerID = ''containerd://c2''\<rparr>]\<rparr>"

text \<open>A pod whose container ID has another prefix, and one that reports one status for two containers.\<close>

definition dockerPod :: pod where
  "dockerPod = \<lparr>pod_Name = ''p4'', pod_Namespace = ''ns'', pod_Spec_Containers = [''app''],
                 pod_Status_ContainerStatuses =
                   [\<lparr>cs_Name = ''app'', cs_ContainerID = ''docker://c9''\<rparr>]\<rparr>"

definition podShort :: pod where
  "podShort = \<lparr>pod_Name = ''p5'', pod_Namespace = ''ns'', pod_Spec_Containers = [''app'', ''sidecar''],
                pod_Status_ContainerStatuses =
                  [\<lparr>cs_Name = ''app'', cs_ContainerID = ''containerd://c1''\<rparr>]\<rparr>"

section \<open>Record ingestion is first-write-wins\<close>

lemma receiveStartupInfo_push:
  "receiveStartupInfo st (push info) =
     ((if allInfo st (identity info) = None
       then st\<lparr>allInfo := (allInfo st)(identity info \<mapsto> info)\<rparr> else st), StatusOK)"
  by (simp add: receiveStartupInfo_def push_def identity_def Let_def)

lemma receiveAll_Cons:
  "fst (receiveAll st (r # rs)) = fst (receiveAll (fst (receiveStartupInfo st r)) rs)"
  "snd (receiveAll st (r # rs)) =
     snd (receiveStartupInfo st r) # snd (receiveAll (fst (receiveStartupInfo st r)) rs)"
  by (simp_all add: case_prod_beta)

lemma receiveAll_push_codes:
  "snd (receiveAll st (map push infos)) = replicate (length infos) StatusOK"
proof (induction infos arbitrary: st)
  case Nil
  show ?case by simp
next
  case (Cons i infos)
  show ?case
    unfolding list.map receiveAll_Cons Cons.IH by (simp add: receiveStartupInfo_push)
qed

lemma receiveAll_push_store:
  "allInfo (fst (receiveAll st (map push infos))) m =
     (case allInfo st m of Some i \<Rightarrow> Some i | None \<Rightarrow> find (\<lambda>i. identity i = m) infos)"
proof (induction infos arbitrary: st)
  case Nil
  then show ?case by (simp split: option.split)
next
  case (Cons i infos)
  show ?case
    unfolding list.map receiveAll_Cons Cons.IH
    by (auto simp add: receiveStartupInfo_push split: option.split)
qed

text \<open>
  Claim C1. Every well-formed push is answered with \<^verbatim>\<open>http.StatusOK\<close>. After any
  sequence of well-formed pushes the record stored under an identity is the one that
  was there before, and otherwise the first record of the sequence with that identity.
  A push whose identity is already stored leaves the whole state as it was and is
  still answered with \<^verbatim>\<open>http.StatusOK\<close>.
\<close>

theorem first_write_wins:
  "snd (receiveAll st (map push infos)) = replicate (length infos) StatusOK \<and>
   allInfo (fst (receiveAll st (map push infos))) m =
     (case allInfo st m of Some i \<Rightarrow> Some i | None \<Rightarrow> find (\<lambda>i. identity i = m) infos) \<and>
   (allInfo st (identity info) \<noteq> None \<longrightarrow> receiveStartupInfo st (push info) = (st, StatusOK))"
  using receiveAll_push_codes [of st infos] receiveAll_push_store [of st infos m]
  by (simp add: receiveStartupInfo_push)

theorem first_write_wins_witness:
  "allInfo storeA (identity recA') \<noteq> None \<and>
   snd (receiveAll storeA (map push [recA', recB])) = [StatusOK, StatusOK] \<and>
   allInfo (fst (receiveAll storeA (map push [recA', recB]))) (identity recA') = Some recA \<and>
   receiveStartupInfo storeA (push recA') = (storeA, StatusOK)"
proof -
  have stored: "allInfo storeA (identity recA') = Some recA"
    by (simp add: storeA_def emptyState_def identity_def recA_def recA'_def)
  from first_write_wins [of storeA "[recA', recB]" "identity recA'" recA'] stored
  show ?thesis by (simp del: receiveAll.simps)
qed

section \<open>The gate\<close>

text \<open>
  Claim C8. With an empty list of live pods \<^verbatim>\<open>shouldUpdate\<close> answers false, and the
  scheduler's visit of the deployment leaves the state as it was: \<^verbatim>\<open>doUpdate\<close> is not
  reached.
\<close>

theorem empty_pod_set_never_scored:
  "shouldUpdate st m [] = False \<and> visitDeployment st d [] = st"
  by (simp add: shouldUpdate_def visitDeployment_def Let_def split: option.split)

lemma Trim_eq_Nil: "Trim s cutset = [] \<longleftrightarrow> set s \<subseteq> set cutset"
proof -
  let ?P = "\<lambda>c. c \<in> set cutset"
  have "Trim s cutset = [] \<longleftrightarrow> (\<forall>x \<in> set (dropWhile ?P s). ?P x)"
    by (simp add: Trim_def dropWhile_eq_Nil_conv)
  also have "\<dots> \<longleftrightarrow> dropWhile ?P s = []"
  proof
    assume a: "\<forall>x \<in> set (dropWhile ?P s). ?P x"
    show "dropWhile ?P s = []"
    proof (rule ccontr)
      assume n: "dropWhile ?P s \<noteq> []"
      then have "\<not> ?P (hd (dropWhile ?P s))" by (rule hd_dropWhile)
      moreover have "hd (dropWhile ?P s) \<in> set (dropWhile ?P s)" using n by simp
      ultimately show False using a by blast
    qed
  next
    assume e: "dropWhile ?P s = []"
    show "\<forall>x \<in> set (dropWhile ?P s). ?P x" unfolding e by simp
  qed
  also have "\<dots> \<longleftrightarrow> set s \<subseteq> set cutset"
    by auto
  finally show ?thesis .
qed

lemma notRunning_iff:
  "notRunning cs \<longleftrightarrow> (\<exists>c \<in> set cs. Trim (cs_ContainerID c) '' '' = [])"
  by (induction cs) auto

lemma settled_iff:
  "settled p \<longleftrightarrow>
     length (pod_Status_ContainerStatuses p) \<noteq> 0 \<and> \<not> notRunning (pod_Status_ContainerStatuses p)"
  by (auto simp add: settled_def notRunning_iff list_all_iff)

text \<open>The loop of the gate runs to its end exactly when every non-nil pod is settled.\<close>

lemma currentPodNamesLoop_eq:
  "currentPodNamesLoop pods acc =
     (if allSettled pods then Some (getPodNamesLoop pods acc) else None)"
proof (induction pods acc rule: currentPodNamesLoop.induct)
  case (1 acc)
  show ?case by (simp add: allSettled_def)
next
  case (2 ps acc)
  then show ?case by (simp add: allSettled_def)
next
  case (3 p ps acc)
  then show ?case using settled_iff [of p] by (auto simp add: allSettled_def)
qed

text \<open>\<^verbatim>\<open>equal\<close> decides set equality: a subset of a finite set with as many elements is the set.\<close>

lemma equal_iff: "equal a b \<longleftrightarrow> a = b"
proof
  assume "equal a b"
  then have c: "card (fset a) = card (fset b)" and s: "fset a \<subseteq> fset b"
    by (auto simp add: equal_def fcard.rep_eq split: if_splits)
  have "fset a = fset b" using s c by (intro card_subset_eq) simp_all
  then show "a = b" by (simp add: fset_inject)
next
  assume "a = b"
  then show "equal a b" by (simp add: equal_def)
qed

lemma allSettled_podA: "allSettled [Some podA]"
  by (simp add: allSettled_def settled_def podA_def Trim_def)

text \<open>
  Claim C6, as stated, fails on the empty pod list: every one of its (zero) pods passes
  the settledness check and nothing is tracked, yet \<^verbatim>\<open>shouldUpdate\<close> answers false.
\<close>

theorem gate_churn_counterexample:
  "allSettled [] \<and> updatedDeploy emptyState depKey = None \<and>
   shouldUpdate emptyState depKey [] = False"
  by (simp add: allSettled_def emptyState_def shouldUpdate_def)

text \<open>
  Claim C6, amended: for a non-empty list of live pods that all pass the settledness
  check, \<^verbatim>\<open>shouldUpdate\<close> answers true when nothing is tracked for the deployment, and
  otherwise answers true exactly when the tracked set differs from the set of live pod
  names; \<^verbatim>\<open>equal\<close> (equal size, every key of the first in the second) is set equality.
\<close>

theorem gate_churn:
  "pods \<noteq> [] \<Longrightarrow> allSettled pods \<Longrightarrow>
     shouldUpdate st m pods =
       (case updatedDeploy st m of
          None \<Rightarrow> True
        | Some lastPodNames \<Rightarrow> lastPodNames \<noteq> getPodNames pods) \<and>
     (equal a b \<longleftrightarrow> a = b)"
  by (simp add: shouldUpdate_def currentPodNamesLoop_eq equal_iff getPodNames_def
      split: option.split)

theorem gate_churn_witness:
  "[Some podA] \<noteq> [] \<and> allSettled [Some podA] \<and>
   shouldUpdate emptyState depKey [Some podA] = True \<and>
   shouldUpdate (tracked emptyState {|''p1''|}) depKey [Some podA] = False \<and>
   shouldUpdate (tracked emptyState {|''p1'', ''p2''|}) depKey [Some podA] = True \<and>
   shouldUpdate (tracked emptyState {||}) depKey [Some podA] = True"
proof -
  have n: "[Some podA] \<noteq> []" by simp
  have names: "getPodNames [Some podA] = {|''p1''|}"
    by (simp add: getPodNames_def podA_def)
  note g = gate_churn [OF n allSettled_podA, of _ depKey "{||}" "{||}", THEN conjunct1]
  show ?thesis
    by (simp add: g names allSettled_podA tracked_def emptyState_def fempty_not_finsert)
qed

text \<open>
  Claim C7, as stated, fails for a container ID that is white space other than spaces:
  \<^verbatim>\<open>strings.Trim(c.ContainerID, " ")\<close> removes spaces only, so a pod whose container
  ID is a single tab passes the check and \<^verbatim>\<open>shouldUpdate\<close> answers true.
\<close>

theorem gate_unsettled_counterexample:
  "[Some tabPod] \<noteq> [] \<and>
   list_ex (\<lambda>c. set (cs_ContainerID c) \<subseteq> whitespace) (pod_Status_ContainerStatuses tabPod) \<and>
   shouldUpdate emptyState depKey [Some tabPod] = True"
  by (simp add: tabPod_def whitespace_def shouldUpdate_def emptyState_def Trim_def)

text \<open>
  Claim C7, amended to the characters the code trims: if some live pod reports no
  container status, or has a container status whose ID is empty or consists of space
  characters only, \<^verbatim>\<open>shouldUpdate\<close> answers false, whatever is tracked.
\<close>

theorem gate_unsettled:
  assumes "Some p \<in> set pods"
    and "pod_Status_ContainerStatuses p = [] \<or>
         (\<exists>c \<in> set (pod_Status_ContainerStatuses p). set (cs_ContainerID c) \<subseteq> {CHR '' ''})"
  shows "shouldUpdate st m pods = False"
proof -
  have "\<not> settled p" using assms(2) by (auto simp add: settled_def list_all_iff Trim_eq_Nil)
  then have "\<not> (case Some p of None \<Rightarrow> True | Some x \<Rightarrow> settled x)" by simp
  with assms(1) have "\<exists>x \<in> set pods. \<not> (case x of None \<Rightarrow> True | Some x \<Rightarrow> settled x)"
    by (rule bexI [rotated])
  then have "\<not> allSettled pods" by (simp add: allSettled_def list_all_iff)
  then show ?thesis by (simp add: shouldUpdate_def currentPodNamesLoop_eq)
qed

theorem gate_unsettled_witness:
  "Some spacePod \<in> set [Some podA, Some spacePod] \<and>
   list_ex (\<lambda>c. set (cs_ContainerID c) \<subseteq> {CHR '' ''}) (pod_Status_ContainerStatuses spacePod) \<and>
   shouldUpdate emptyState depKey [Some podA, Some spacePod] = False \<and>
   shouldUpdate (tracked emptyState {|''p0''|}) depKey [Some podA, Some spacePod] = False"
proof -
  have m: "Some spacePod \<in> set [Some podA, Some spacePod]" by simp
  have s: "pod_Status_ContainerStatuses spacePod = [] \<or>
           (\<exists>c \<in> set (pod_Status_ContainerStatuses spacePod). set (cs_ContainerID c) \<subseteq> {CHR '' ''})"
    by (simp add: spacePod_def)
  have e: "list_ex (\<lambda>c. set (cs_ContainerID c) \<subseteq> {CHR '' ''}) (pod_Status_ContainerStatuses spacePod)"
    by (simp add: spacePod_def)
  show ?thesis using m e gate_unsettled [OF m s] by simp
qed

section \<open>Small integers are exact in binary64\<close>

text \<open>
  An integer below \<open>2 ^ 53\<close> in magnitude is a binary64 value: rounding returns it
  unchanged. The concrete computations below rest on this.
\<close>

lemma round_half_even_int: "round_half_even (of_int k) = k"
  by (simp add: round_half_even_def)

lemma round_binary64_of_int:
  assumes "\<bar>n\<bar> < 2 ^ 53"
  shows "round_binary64 (of_int n) = Finite (of_int n)"
proof (cases "n = 0")
  case True
  then show ?thesis by (simp add: round_binary64_def)
next
  case False
  define a where "a = \<bar>n\<bar>"
  have a1: "1 \<le> a" and a2: "a < 2 ^ 53" using False assms by (simp_all add: a_def)
  have "nat a < 2 ^ 53" using a2 a1 by (simp add: nat_less_iff)
  then have fl: "floorlog 2 (nat a) \<le> 53" by (simp add: floorlog_le_iff)
  have il: "ilog2 (of_int a) \<le> 52" using a1 fl by (simp add: ilog2_def)
  define k where "k = nat (52 - max (ilog2 (of_int a)) (- 1022))"
  have q: "max (ilog2 (of_int a)) (- 1022) - 52 = - int k" using il by (simp add: k_def)
  have p: "pow2 (- int k) = 1 / 2 ^ k" by (simp add: pow2_def)
  have d: "(of_int a :: rat) / pow2 (- int k) = of_int (a * 2 ^ k)" by (simp add: p)
  have r: "of_int (round_half_even (of_int a / pow2 (- int k))) * pow2 (- int k) = (of_int a :: rat)"
    unfolding d round_half_even_int by (simp add: p)
  have big: "\<not> pow2 1024 \<le> (of_int a :: rat)"
  proof -
    have "(of_int a :: rat) < of_int (2 ^ 53)" using a2 by (simp only: of_int_less_iff)
    also have "\<dots> \<le> pow2 1024" by (simp add: pow2_def)
    finally show ?thesis by simp
  qed
  have abs: "\<bar>of_int n :: rat\<bar> = of_int a" by (simp add: a_def)
  have sg: "(if 0 < (of_int n :: rat) then of_int a else - of_int a) = (of_int n :: rat)"
    by (simp add: a_def)
  have nz: "(of_int n :: rat) \<noteq> 0" using False by simp
  have "round_binary64 (of_int n) =
          (if pow2 1024 \<le> (of_int a :: rat) then (if 0 < (of_int n :: rat) then PosInf else NegInf)
           else Finite (if 0 < (of_int n :: rat) then of_int a else - of_int a))"
    unfolding round_binary64_def Let_def abs q r using nz by (simp only: if_False)
  then show ?thesis unfolding sg using big by (simp only: if_False)
qed

lemma round_binary64_numeral:
  "numeral k < (2::int) ^ 53 \<Longrightarrow> round_binary64 (numeral k) = Finite (numeral k)"
  using round_binary64_of_int [of "numeral k"] by simp

lemma f64_of_int_exact: "\<bar>n\<bar> < 2 ^ 53 \<Longrightarrow> f64_of_int n = Finite (of_int n)"
  by (simp add: f64_of_int_def round_binary64_of_int)

text \<open>
  Under plausible timestamps the \<^verbatim>\<open>int64\<close> difference does not wrap, and while the sum of
  the latencies stays below \<open>2 ^ 53\<close> the float64 total is the exact sum.
\<close>

lemma sint_diff_exact:
  fixes a b :: int64
  assumes "0 \<le> sint a" and "sint a \<le> sint b"
  shows "sint (b - a) = sint b - sint a"
proof -
  have ub: "sint b < 2 ^ 63" using sint_lt [of b] by simp
  have "sint (b - a) = signed_take_bit 63 (sint b - sint a)"
    by (simp add: sint_word_ariths)
  also have "\<dots> = sint b - sint a"
    using assms ub by (intro signed_take_bit_int_eq_self) simp_all
  finally show ?thesis .
qed

lemma f64_add_exact:
  assumes "\<bar>a + b\<bar> < 2 ^ 53" and "\<bar>b\<bar> < 2 ^ 53"
  shows "f64_add (Finite (of_int a)) (f64_of_int b) = Finite (of_int (a + b))"
proof -
  have "f64_add (Finite (of_int a)) (f64_of_int b) = round_binary64 (of_int (a + b))"
    using assms(2) by (simp add: f64_of_int_exact)
  then show ?thesis using assms(1) by (simp only: round_binary64_of_int)
qed

lemma foldl_addLatency_exact:
  assumes "wellTimed infos" and "0 \<le> t" and "t + sum_list (durations infos) < 2 ^ 53"
  shows "foldl addLatency (Finite (of_int t)) infos = Finite (of_int (t + sum_list (durations infos)))"
  using assms
proof (induction infos arbitrary: t)
  case Nil
  show ?case by (simp add: durations_def)
next
  case (Cons i infos)
  let ?d = "sint (End i) - sint (Start i)"
  from Cons.prems(1) have wi: "0 \<le> sint (Start i)" "sint (Start i) \<le> sint (End i)"
    and wr: "wellTimed infos" by (simp_all add: wellTimed_def)
  have nn: "0 \<le> sum_list (durations infos)"
    using wr by (induction infos) (simp_all add: wellTimed_def durations_def)
  have d0: "0 \<le> ?d" using wi by simp
  have s: "sint (End i - Start i) = ?d" using wi by (rule sint_diff_exact)
  have b1: "\<bar>t + ?d\<bar> < 2 ^ 53" and b2: "\<bar>?d\<bar> < 2 ^ 53"
    using Cons.prems(2,3) d0 nn by (simp_all add: durations_def)
  have step: "addLatency (Finite (of_int t)) i = Finite (of_int (t + ?d))"
    unfolding addLatency_def s using b1 b2 by (rule f64_add_exact)
  have "foldl addLatency (Finite (of_int (t + ?d))) infos
          = Finite (of_int ((t + ?d) + sum_list (durations infos)))"
    using wr Cons.prems(2,3) d0 by (intro Cons.IH) (simp_all add: durations_def)
  then show ?case by (simp add: step durations_def add.assoc)
qed

lemma totalLatency_exact:
  assumes "wellTimed infos" and "sum_list (durations infos) < 2 ^ 53"
  shows "totalLatency infos = Finite (of_int (sum_list (durations infos)))"
  using foldl_addLatency_exact [OF assms(1), of 0] assms(2) by (simp add: totalLatency_def)

lemma average_exact:
  assumes "wellTimed infos" and "sum_list (durations infos) < 2 ^ 53" and "0 < n" and "n < 2 ^ 53"
  shows "f64_div (totalLatency infos) (f64_of_int n)
           = round_binary64 (of_int (sum_list (durations infos)) / of_int n)"
  using assms by (simp add: totalLatency_exact f64_of_int_exact)

section \<open>The loops of the aggregator\<close>

lemma received_fields:
  "targetLen (received old i l) = targetLen l"
  "unreceivedNames (received old i l) = unreceivedNames l"
  "total (received old i l) = addLatency (total l) i"
  "startTimestamp (received old i l) = (if old then startTimestamp l else earlier (startTimestamp l) i)"
  "endTimestamp (received old i l) = (if old then endTimestamp l else later (endTimestamp l) i)"
  by (simp_all add: received_def addLatency_def earlier_def later_def Let_def)

lemma statusLoop_ok:
  assumes "list_all (\<lambda>c. HasPrefix (cs_ContainerID c) containerNamePrefix) cs"
  shows "\<exists>l'. statusLoop st p old cs l = Inr l' \<and>
           targetLen l' = targetLen l \<and>
           total l' = foldl addLatency (total l)
                        (foundAll (map (\<lambda>c. (\<not> old, allInfo st (lookupKey c))) cs)) \<and>
           startTimestamp l' = foldl earlier (startTimestamp l)
                        (foundNew (map (\<lambda>c. (\<not> old, allInfo st (lookupKey c))) cs)) \<and>
           endTimestamp l' = foldl later (endTimestamp l)
                        (foundNew (map (\<lambda>c. (\<not> old, allInfo st (lookupKey c))) cs)) \<and>
           length (unreceivedNames l') = length (unreceivedNames l) +
                        unreceivedCount (map (\<lambda>c. (\<not> old, allInfo st (lookupKey c))) cs)"
  using assms
proof (induction cs arbitrary: l)
  case Nil
  show ?case by (simp add: foundAll_def foundNew_def unreceivedCount_def)
next
  case (Cons c cs)
  from Cons.prems have pc: "HasPrefix (cs_ContainerID c) containerNamePrefix"
    and rest: "list_all (\<lambda>c. HasPrefix (cs_ContainerID c) containerNamePrefix) cs" by simp_all
  show ?case
  proof (cases "allInfo st (lookupKey c)")
    case None
    from Cons.IH [OF rest, of "l\<lparr>unreceivedNames := unreceivedNames l @
        [containerShortName (TrimPrefix (cs_ContainerID c) containerNamePrefix)]\<rparr>"]
    show ?thesis using pc None
      by (auto simp add: Let_def lookupKey_def foundAll_def foundNew_def unreceivedCount_def)
  next
    case (Some i)
    from Cons.IH [OF rest, of "received old i l"]
    show ?thesis using pc Some
      by (auto simp add: Let_def lookupKey_def foundAll_def foundNew_def unreceivedCount_def
          received_fields)
  qed
qed

lemma statusLoop_bad:
  assumes "\<not> list_all (\<lambda>c. HasPrefix (cs_ContainerID c) containerNamePrefix) cs"
  shows "\<exists>e. statusLoop st p old cs l = Inl e"
  using assms
proof (induction cs arbitrary: l)
  case Nil
  then show ?case by simp
next
  case (Cons c cs)
  show ?case
  proof (cases "HasPrefix (cs_ContainerID c) containerNamePrefix")
    case False
    then show ?thesis by simp
  next
    case True
    with Cons.prems have "\<not> list_all (\<lambda>c. HasPrefix (cs_ContainerID c) containerNamePrefix) cs"
      by simp
    from Cons.IH [OF this] True show ?thesis
      by (cases "allInfo st \<lparr>name = TrimPrefix (cs_ContainerID c) containerNamePrefix,
                  namespace = defaultContainerdK8sNamespace\<rparr>") (simp_all add: Let_def)
  qed
qed

lemma lookedUp_simps:
  "lookedUp st lpn [] = []"
  "lookedUp st lpn (None # ps) = lookedUp st lpn ps"
  "lookedUp st lpn (Some p # ps) =
     map (\<lambda>c. (pod_Name p |\<notin>| lpn, allInfo st (lookupKey c))) (pod_Status_ContainerStatuses p)
     @ lookedUp st lpn ps"
  by (simp_all add: lookedUp_def livePods_def)

lemma found_append:
  "foundAll (xs @ ys) = foundAll xs @ foundAll ys"
  "foundNew (xs @ ys) = foundNew xs @ foundNew ys"
  "unreceivedCount (xs @ ys) = unreceivedCount xs + unreceivedCount ys"
  by (simp_all add: foundAll_def foundNew_def unreceivedCount_def)

lemma targetCount_simps:
  "targetCount [] = 0"
  "targetCount (None # ps) = targetCount ps"
  "targetCount (Some p # ps) = int (length (pod_Spec_Containers p)) + targetCount ps"
  by (simp_all add: targetCount_def livePods_def)

lemma allPrefixed_simps:
  "allPrefixed [] = True"
  "allPrefixed (None # ps) = allPrefixed ps"
  "allPrefixed (Some p # ps) =
     (list_all (\<lambda>c. HasPrefix (cs_ContainerID c) containerNamePrefix) (pod_Status_ContainerStatuses p)
      \<and> allPrefixed ps)"
  by (simp_all add: allPrefixed_def livePods_def)

lemma podLoop_ok:
  assumes "allPrefixed pods"
  shows "\<exists>l'. podLoop st lpn pods l = Inr l' \<and>
           targetLen l' = targetLen l + targetCount pods \<and>
           total l' = foldl addLatency (total l) (foundAll (lookedUp st lpn pods)) \<and>
           startTimestamp l' = foldl earlier (startTimestamp l) (foundNew (lookedUp st lpn pods)) \<and>
           endTimestamp l' = foldl later (endTimestamp l) (foundNew (lookedUp st lpn pods)) \<and>
           length (unreceivedNames l') =
             length (unreceivedNames l) + unreceivedCount (lookedUp st lpn pods)"
  using assms
proof (induction st lpn pods l rule: podLoop.induct)
  case (1 st lpn l)
  show ?case by (simp add: lookedUp_simps targetCount_simps found_append foundAll_def foundNew_def unreceivedCount_def)
next
  case (2 st lpn ps l)
  then show ?case by (simp add: lookedUp_simps targetCount_simps allPrefixed_simps)
next
  case (3 st lpn p ps l)
  let ?l1 = "l\<lparr>targetLen := targetLen l + int (length (pod_Spec_Containers p))\<rparr>"
  let ?old = "pod_Name p |\<in>| lpn"
  from "3.prems" have pc: "list_all (\<lambda>c. HasPrefix (cs_ContainerID c) containerNamePrefix)
      (pod_Status_ContainerStatuses p)" and rest: "allPrefixed ps"
    by (simp_all add: allPrefixed_simps)
  from statusLoop_ok [OF pc, of st p ?old ?l1] obtain l2 where
    s: "statusLoop st p ?old (pod_Status_ContainerStatuses p) ?l1 = Inr l2"
    and f: "targetLen l2 = targetLen ?l1"
      "total l2 = foldl addLatency (total ?l1)
         (foundAll (map (\<lambda>c. (\<not> ?old, allInfo st (lookupKey c))) (pod_Status_ContainerStatuses p)))"
      "startTimestamp l2 = foldl earlier (startTimestamp ?l1)
         (foundNew (map (\<lambda>c. (\<not> ?old, allInfo st (lookupKey c))) (pod_Status_ContainerStatuses p)))"
      "endTimestamp l2 = foldl later (endTimestamp ?l1)
         (foundNew (map (\<lambda>c. (\<not> ?old, allInfo st (lookupKey c))) (pod_Status_ContainerStatuses p)))"
      "length (unreceivedNames l2) = length (unreceivedNames ?l1) +
         unreceivedCount (map (\<lambda>c. (\<not> ?old, allInfo st (lookupKey c))) (pod_Status_ContainerStatuses p))"
    by blast
  from "3.IH" [OF refl refl s rest] obtain l' where
    r: "podLoop st lpn ps l2 = Inr l'"
    and g: "targetLen l' = targetLen l2 + targetCount ps"
      "total l' = foldl addLatency (total l2) (foundAll (lookedUp st lpn ps))"
      "startTimestamp l' = foldl earlier (startTimestamp l2) (foundNew (lookedUp st lpn ps))"
      "endTimestamp l' = foldl later (endTimestamp l2) (foundNew (lookedUp st lpn ps))"
      "length (unreceivedNames l') = length (unreceivedNames l2) + unreceivedCount (lookedUp st lpn ps)"
    by blast
  have "podLoop st lpn (Some p # ps) l = Inr l'" using s r by (simp add: Let_def)
  then show ?case using f g
    by (simp add: lookedUp_simps targetCount_simps found_append)
qed

lemma podLoop_bad:
  assumes "\<not> allPrefixed pods"
  shows "\<exists>e. podLoop st lpn pods l = Inl e"
  using assms
proof (induction st lpn pods l rule: podLoop.induct)
  case (1 st lpn l)
  then show ?case by (simp add: allPrefixed_simps)
next
  case (2 st lpn ps l)
  then show ?case by (simp add: allPrefixed_simps)
next
  case (3 st lpn p ps l)
  let ?l1 = "l\<lparr>targetLen := targetLen l + int (length (pod_Spec_Containers p))\<rparr>"
  let ?old = "pod_Name p |\<in>| lpn"
  show ?case
  proof (cases "statusLoop st p ?old (pod_Status_ContainerStatuses p) ?l1")
    case (Inl e)
    then show ?thesis by (simp add: Let_def)
  next
    case (Inr l2)
    have "list_all (\<lambda>c. HasPrefix (cs_ContainerID c) containerNamePrefix) (pod_Status_ContainerStatuses p)"
      using statusLoop_bad [of "pod_Status_ContainerStatuses p" st p ?old ?l1] Inr by auto
    with "3.prems" have "\<not> allPrefixed ps" by (simp add: allPrefixed_simps)
    from "3.IH" [OF refl refl Inr this] Inr show ?thesis by (simp add: Let_def)
  qed
qed

section \<open>The aggregator\<close>

lemma scan_ok:
  assumes "allPrefixed pods"
  shows "\<exists>l. podLoop st lpn pods initLocals = Inr l \<and>
           targetLen l = targetCount pods \<and>
           total l = totalLatency (foundAll (lookedUp st lpn pods)) \<and>
           startTimestamp l = minStart (foundNew (lookedUp st lpn pods)) \<and>
           endTimestamp l = maxEnd (foundNew (lookedUp st lpn pods)) \<and>
           receivedLen l = receivedCount st lpn pods"
  using podLoop_ok [OF assms, of st lpn initLocals]
  by (auto simp add: initLocals_def totalLatency_def minStart_def maxEnd_def receivedLen_def
      receivedCount_def)

text \<open>What \<^verbatim>\<open>doUpdate\<close> returns and writes, in the quantities of the specification.\<close>

lemma doUpdate_ok:
  assumes "allPrefixed pods"
  shows "doUpdate st d pods =
    (if receivedCount st (lastPodNamesOf st d) pods = 0 \<or>
        receivedCount st (lastPodNamesOf st d) pods \<noteq> targetCount pods
     then (st, False, None)
     else (st\<lparr>deployPodsAvgStartupLatency :=
               (deployPodsAvgStartupLatency st)
                 ((deploy_Name d, deploy_Namespace d) \<mapsto>
                    f64_div (totalLatency (foundAll (lookedUp st (lastPodNamesOf st d) pods)))
                            (f64_of_int (receivedCount st (lastPodNamesOf st d) pods))),
              deployScaleLatency :=
               (if sint (minStart (foundNew (lookedUp st (lastPodNamesOf st d) pods)))
                   < sint (maxEnd (foundNew (lookedUp st (lastPodNamesOf st d) pods)))
                then (deployScaleLatency st)
                       ((deploy_Name d, deploy_Namespace d) \<mapsto>
                          f64_of_int (sint (maxEnd (foundNew (lookedUp st (lastPodNamesOf st d) pods))
                                          - minStart (foundNew (lookedUp st (lastPodNamesOf st d) pods)))))
                else deployScaleLatency st)\<rparr>,
           True, None))"
proof -
  from scan_ok [OF assms, of st "lastPodNamesOf st d"] obtain l where
    l: "podLoop st (lastPodNamesOf st d) pods initLocals = Inr l"
    and f: "targetLen l = targetCount pods"
      "total l = totalLatency (foundAll (lookedUp st (lastPodNamesOf st d) pods))"
      "startTimestamp l = minStart (foundNew (lookedUp st (lastPodNamesOf st d) pods))"
      "endTimestamp l = maxEnd (foundNew (lookedUp st (lastPodNamesOf st d) pods))"
      "receivedLen l = receivedCount st (lastPodNamesOf st d) pods"
    by blast
  have "doUpdate st d pods = publish st d l" by (simp add: doUpdate_def l)
  then show ?thesis by (simp add: publish_def f Let_def)
qed

lemma doUpdate_bad:
  assumes "\<not> allPrefixed pods"
  shows "\<exists>e. doUpdate st d pods = (st, False, Some e)"
  using podLoop_bad [OF assms, of st "lastPodNamesOf st d" initLocals]
  by (auto simp add: doUpdate_def)

lemma doUpdate_tracked: "updatedDeploy (fst (doUpdate st d pods)) = updatedDeploy st"
proof (cases "allPrefixed pods")
  case True
  then show ?thesis by (simp add: doUpdate_ok)
next
  case False
  from doUpdate_bad [OF this, of st d] show ?thesis by auto
qed

lemma doUpdate_store: "allInfo (fst (doUpdate st d pods)) = allInfo st"
proof (cases "allPrefixed pods")
  case True
  then show ?thesis by (simp add: doUpdate_ok)
next
  case False
  from doUpdate_bad [OF this, of st d] show ?thesis by auto
qed

lemma podLoop_Inr_prefixed:
  assumes "podLoop st lpn pods l = Inr l'"
  shows "allPrefixed pods"
proof (rule ccontr)
  assume "\<not> allPrefixed pods"
  from podLoop_bad [OF this, of st lpn l] assms show False by auto
qed

lemma doUpdate_result:
  "snd (doUpdate st d pods) = (True, None) \<or> snd (doUpdate st d pods) = (False, None) \<or>
   (\<exists>e. doUpdate st d pods = (st, False, Some e))"
proof (cases "allPrefixed pods")
  case True
  then show ?thesis by (simp add: doUpdate_ok)
next
  case False
  from doUpdate_bad [OF this, of st d] show ?thesis by auto
qed

lemma published_prefixed:
  assumes "snd (doUpdate st d pods) = (True, None)"
  shows "allPrefixed pods"
proof (rule ccontr)
  assume "\<not> allPrefixed pods"
  from doUpdate_bad [OF this, of st d] assms show False by auto
qed

lemma livePods_simps:
  "livePods [] = []"
  "livePods (None # ps) = livePods ps"
  "livePods (Some p # ps) = p # livePods ps"
  by (simp_all add: livePods_def)

lemma livePods_set: "p \<in> set (livePods pods) \<longleftrightarrow> Some p \<in> set pods"
  by (auto simp add: livePods_def split: option.splits)

text \<open>The containers of old pods contribute nothing to the window.\<close>

lemma foundNew_all_old:
  assumes "list_all (\<lambda>p. pod_Name p |\<in>| lpn) (livePods pods)"
  shows "foundNew (lookedUp st lpn pods) = []"
  using assms
proof (induction pods)
  case Nil
  show ?case by (simp add: lookedUp_simps foundNew_def)
next
  case (Cons p ps)
  show ?case
  proof (cases p)
    case None
    with Cons show ?thesis by (simp add: lookedUp_simps livePods_simps)
  next
    case (Some q)
    with Cons.prems have old: "pod_Name q |\<in>| lpn"
      and rest: "list_all (\<lambda>p. pod_Name p |\<in>| lpn) (livePods ps)"
      by (simp_all add: livePods_simps)
    have "foundNew (map (\<lambda>c. (pod_Name q |\<notin>| lpn, allInfo st (lookupKey c)))
                        (pod_Status_ContainerStatuses q)) = []"
      using old by (simp add: foundNew_def split: option.split)
    then show ?thesis using Some Cons.IH [OF rest] by (simp add: lookedUp_simps found_append)
  qed
qed

lemma empty_window: "\<not> sint (minStart []) < sint (maxEnd [])"
  by (simp add: minStart_def maxEnd_def MaxInt64_def)

section \<open>The aggregator on the example inputs\<close>

lemmas ex_defs = storeAB_def storeA_def emptyState_def recA_def recB_def identity_def podA_def podB_def
  dockerPod_def web_def depKey_def tracked_def
lemmas spec_defs = allPrefixed_def livePods_def lookedUp_def lookupKey_def foundAll_def foundNew_def
  unreceivedCount_def receivedCount_def targetCount_def minStart_def maxEnd_def totalLatency_def
  earlier_def later_def addLatency_def lastPodNamesOf_def HasPrefix_def TrimPrefix_def
  containerNamePrefix_def defaultContainerdK8sNamespace_def MaxInt64_def
lemmas code_defs = doUpdate_def publish_def received_def initLocals_def receivedLen_def
  lastPodNamesOf_def HasPrefix_def TrimPrefix_def containerShortName_def maxContainerNameLength_def
  containerNamePrefix_def defaultContainerdK8sNamespace_def MaxInt64_def Let_def
lemmas f64_eval = f64_of_int_exact round_binary64_numeral

text \<open>Nothing tracked, both records stored: both gauges are written.\<close>

lemma ex_fresh:
  "doUpdate storeAB web [Some podA, Some podB] =
     (storeAB\<lparr>deployPodsAvgStartupLatency := [(''web'', ''ns'') \<mapsto> Finite 55],
              deployScaleLatency := [(''web'', ''ns'') \<mapsto> Finite 160]\<rparr>, True, None)"
  by (simp add: code_defs ex_defs f64_eval)

text \<open>The pod \<open>p1\<close> is tracked, \<open>p2\<close> is new: the window is that of \<open>p2\<close> alone.\<close>

lemma ex_grown:
  "doUpdate (tracked storeAB {|''p1''|}) web [Some podA, Some podB] =
     ((tracked storeAB {|''p1''|})
        \<lparr>deployPodsAvgStartupLatency := [(''web'', ''ns'') \<mapsto> Finite 55],
         deployScaleLatency := [(''web'', ''ns'') \<mapsto> Finite 60]\<rparr>, True, None)"
  by (simp add: code_defs ex_defs f64_eval)

text \<open>Both pods are tracked: only the average is written.\<close>

lemma ex_all_old:
  "doUpdate (tracked storeAB {|''p1'', ''p2''|}) web [Some podA, Some podB] =
     ((tracked storeAB {|''p1'', ''p2''|})
        \<lparr>deployPodsAvgStartupLatency := [(''web'', ''ns'') \<mapsto> Finite 55]\<rparr>, True, None)"
  by (simp add: code_defs ex_defs f64_eval)

text \<open>The record of \<open>p2\<close> is missing: nothing is written.\<close>

lemma ex_partial: "doUpdate storeA web [Some podA, Some podB] = (storeA, False, None)"
  by (simp add: code_defs ex_defs f64_eval)

lemma ex_docker:
  "doUpdate storeA web [Some podB, Some dockerPod] =
     (storeA, False, Some (NotRunningByContainerd ''app'' ''docker://c9'' ''p4'' ''ns''))"
  by (simp add: code_defs ex_defs)

lemma ex_short:
  "doUpdate storeA web [Some podShort] =
     (storeA\<lparr>deployPodsAvgStartupLatency := [(''web'', ''ns'') \<mapsto> Finite 25],
             deployScaleLatency := [(''web'', ''ns'') \<mapsto> Finite 50]\<rparr>, True, None)"
  by (simp add: code_defs ex_defs podShort_def f64_eval)

lemma ex_prefixed: "allPrefixed [Some podA, Some podB]"
  by (simp add: spec_defs ex_defs)

section \<open>Completeness gating\<close>

text \<open>
  Claim C2, as stated, fails when a container ID lacks the prefix. Here one container is
  looked up and absent from the store, and a second one is run by another runtime:
  \<open>targetCount\<close> is 2 and \<open>receivedCount\<close> is not (it is 1 counting the lookups made
  before the scan stops, 0 counting the second container as absent too), yet
  \<^verbatim>\<open>doUpdate\<close> returns an error, not \<^verbatim>\<open>(false, nil)\<close>.
\<close>

theorem completeness_gating_counterexample:
  "targetCount [Some podB, Some dockerPod] = 2 \<and>
   targetCount [Some podB, Some dockerPod]
     - int (unreceivedCount (lookedUp storeA (lastPodNamesOf storeA web) [Some podB])) = 1 \<and>
   receivedCount storeA (lastPodNamesOf storeA web) [Some podB, Some dockerPod] = 0 \<and>
   doUpdate storeA web [Some podB, Some dockerPod] =
     (storeA, False, Some (NotRunningByContainerd ''app'' ''docker://c9'' ''p4'' ''ns'')) \<and>
   snd (doUpdate storeA web [Some podB, Some dockerPod]) \<noteq> (False, None)"
  by (simp add: ex_docker) (simp add: spec_defs ex_defs)

text \<open>
  Claim C2, amended with the case it leaves out: when every container status of every
  live pod has an ID with the transport prefix, \<^verbatim>\<open>doUpdate\<close> returns \<^verbatim>\<open>(false, nil)\<close> and
  leaves the state, both gauges included, as it was whenever \<open>receivedCount = 0\<close> or
  \<open>receivedCount \<noteq> targetCount\<close>. For every input, \<^verbatim>\<open>doUpdate\<close> changes the state only
  when all IDs have the prefix and \<open>receivedCount = targetCount\<close>, and then it returns
  \<^verbatim>\<open>(true, nil)\<close>.
\<close>

theorem completeness_gating:
  "(allPrefixed pods \<longrightarrow>
      receivedCount st (lastPodNamesOf st d) pods = 0 \<or>
      receivedCount st (lastPodNamesOf st d) pods \<noteq> targetCount pods \<longrightarrow>
      doUpdate st d pods = (st, False, None)) \<and>
   (fst (doUpdate st d pods) \<noteq> st \<longrightarrow>
      allPrefixed pods \<and>
      receivedCount st (lastPodNamesOf st d) pods = targetCount pods \<and>
      snd (doUpdate st d pods) = (True, None))"
proof (cases "allPrefixed pods")
  case True
  then show ?thesis by (simp add: doUpdate_ok)
next
  case False
  from doUpdate_bad [OF this, of st d] show ?thesis using False by auto
qed

theorem completeness_gating_witness:
  "allPrefixed [Some podA, Some podB] \<and>
   receivedCount storeA (lastPodNamesOf storeA web) [Some podA, Some podB] = 1 \<and>
   targetCount [Some podA, Some podB] = 2 \<and>
   doUpdate storeA web [Some podA, Some podB] = (storeA, False, None) \<and>
   fst (doUpdate storeAB web [Some podA, Some podB]) \<noteq> storeAB \<and>
   receivedCount storeAB (lastPodNamesOf storeAB web) [Some podA, Some podB] = 2 \<and>
   snd (doUpdate storeAB web [Some podA, Some podB]) = (True, None)"
proof -
  have rc: "receivedCount storeA (lastPodNamesOf storeA web) [Some podA, Some podB] = 1"
    by (simp add: spec_defs ex_defs)
  have tc: "targetCount [Some podA, Some podB] = 2"
    by (simp add: spec_defs ex_defs)
  have ch: "fst (doUpdate storeAB web [Some podA, Some podB]) \<noteq> storeAB"
  proof
    assume "fst (doUpdate storeAB web [Some podA, Some podB]) = storeAB"
    then have "deployScaleLatency (fst (doUpdate storeAB web [Some podA, Some podB])) (''web'', ''ns'')
        = deployScaleLatency storeAB (''web'', ''ns'')" by simp
    then show False by (simp add: ex_fresh) (simp add: ex_defs)
  qed
  from completeness_gating [of "[Some podA, Some podB]" storeA web]
    completeness_gating [of "[Some podA, Some podB]" storeAB web]
  show ?thesis using ex_prefixed rc tc ch by simp
qed

section \<open>The scale-latency window\<close>

text \<open>
  Claim C3. When the loops of \<^verbatim>\<open>doUpdate\<close> run to their end, \<^verbatim>\<open>startTimestamp\<close> and
  \<^verbatim>\<open>endTimestamp\<close> are the bounds folded over the records found for the containers of
  new pods only. When \<^verbatim>\<open>doUpdate\<close> returns \<^verbatim>\<open>(true, nil)\<close>, the scale-latency gauge of the
  deployment is set to \<^verbatim>\<open>float64(endTimestamp - startTimestamp)\<close> if \<open>maxEnd > minStart\<close> in
  the signed order, and the gauge vector is left as it was otherwise. When every live
  pod is old the gauge vector is left as it was. The subtraction is that of \<^verbatim>\<open>int64\<close>;
  it is the difference of the two integers whenever \<open>minStart\<close> is not negative.
\<close>

theorem scale_latency_window:
  "(podLoop st (lastPodNamesOf st d) pods initLocals = Inr l \<longrightarrow>
      startTimestamp l = minStart (newRecords st d pods) \<and>
      endTimestamp l = maxEnd (newRecords st d pods)) \<and>
   (snd (doUpdate st d pods) = (True, None) \<longrightarrow>
      deployScaleLatency (fst (doUpdate st d pods)) =
        (if sint (minStart (newRecords st d pods)) < sint (maxEnd (newRecords st d pods))
         then (deployScaleLatency st)
                ((deploy_Name d, deploy_Namespace d) \<mapsto>
                   f64_of_int (sint (maxEnd (newRecords st d pods) - minStart (newRecords st d pods))))
         else deployScaleLatency st)) \<and>
   (list_all (\<lambda>p. pod_Name p |\<in>| lastPodNamesOf st d) (livePods pods) \<longrightarrow>
      deployScaleLatency (fst (doUpdate st d pods)) = deployScaleLatency st) \<and>
   (0 \<le> sint (minStart (newRecords st d pods)) \<and>
    sint (minStart (newRecords st d pods)) < sint (maxEnd (newRecords st d pods)) \<longrightarrow>
      sint (maxEnd (newRecords st d pods) - minStart (newRecords st d pods)) =
        sint (maxEnd (newRecords st d pods)) - sint (minStart (newRecords st d pods)))"
proof (intro conjI impI)
  assume a: "podLoop st (lastPodNamesOf st d) pods initLocals = Inr l"
  from scan_ok [OF podLoop_Inr_prefixed [OF a], of st "lastPodNamesOf st d"] a
  show "startTimestamp l = minStart (newRecords st d pods)"
    and "endTimestamp l = maxEnd (newRecords st d pods)"
    by (auto simp add: newRecords_def)
next
  assume p: "snd (doUpdate st d pods) = (True, None)"
  note pre = published_prefixed [OF p]
  from p show "deployScaleLatency (fst (doUpdate st d pods)) =
        (if sint (minStart (newRecords st d pods)) < sint (maxEnd (newRecords st d pods))
         then (deployScaleLatency st)
                ((deploy_Name d, deploy_Namespace d) \<mapsto>
                   f64_of_int (sint (maxEnd (newRecords st d pods) - minStart (newRecords st d pods))))
         else deployScaleLatency st)"
    unfolding doUpdate_ok [OF pre] newRecords_def by (simp split: if_splits)
next
  assume old: "list_all (\<lambda>p. pod_Name p |\<in>| lastPodNamesOf st d) (livePods pods)"
  show "deployScaleLatency (fst (doUpdate st d pods)) = deployScaleLatency st"
  proof (cases "allPrefixed pods")
    case True
    show ?thesis
      unfolding doUpdate_ok [OF True] foundNew_all_old [OF old] using empty_window by simp
  next
    case False
    from doUpdate_bad [OF this, of st d] show ?thesis by auto
  qed
next
  assume "0 \<le> sint (minStart (newRecords st d pods)) \<and>
    sint (minStart (newRecords st d pods)) < sint (maxEnd (newRecords st d pods))"
  then show "sint (maxEnd (newRecords st d pods) - minStart (newRecords st d pods)) =
        sint (maxEnd (newRecords st d pods)) - sint (minStart (newRecords st d pods))"
    by (intro sint_diff_exact) simp_all
qed

theorem scale_latency_window_witness:
  "podLoop (tracked storeAB {|''p1''|}) (lastPodNamesOf (tracked storeAB {|''p1''|}) web)
     [Some podA, Some podB] initLocals =
     Inr \<lparr>targetLen = 2, total = Finite 110, startTimestamp = 200, endTimestamp = 260,
          unreceivedNames = []\<rparr> \<and>
   newRecords (tracked storeAB {|''p1''|}) web [Some podA, Some podB] = [recB] \<and>
   minStart [recB] = 200 \<and> maxEnd [recB] = 260 \<and>
   snd (doUpdate (tracked storeAB {|''p1''|}) web [Some podA, Some podB]) = (True, None) \<and>
   deployScaleLatency (fst (doUpdate (tracked storeAB {|''p1''|}) web [Some podA, Some podB]))
     = [(''web'', ''ns'') \<mapsto> Finite 60] \<and>
   sint ((260 :: int64) - 200) = 60 \<and>
   list_all (\<lambda>p. pod_Name p |\<in>| lastPodNamesOf (tracked storeAB {|''p1'', ''p2''|}) web)
     (livePods [Some podA, Some podB]) \<and>
   snd (doUpdate (tracked storeAB {|''p1'', ''p2''|}) web [Some podA, Some podB]) = (True, None) \<and>
   deployScaleLatency (fst (doUpdate (tracked storeAB {|''p1'', ''p2''|}) web [Some podA, Some podB]))
     = deployScaleLatency (tracked storeAB {|''p1'', ''p2''|})"
proof -
  let ?st = "tracked storeAB {|''p1''|}"
  let ?pods = "[Some podA, Some podB]"
  let ?l = "\<lparr>targetLen = 2, total = Finite 110, startTimestamp = 200, endTimestamp = 260,
             unreceivedNames = []\<rparr>"
  have loop: "podLoop ?st (lastPodNamesOf ?st web) ?pods initLocals = Inr ?l"
    by (simp add: code_defs ex_defs f64_eval)
  have new: "newRecords ?st web ?pods = [recB]"
    by (simp add: newRecords_def spec_defs ex_defs)
  have w: "minStart [recB] = 200" "maxEnd [recB] = 260"
    by (simp_all add: spec_defs ex_defs)
  have old: "list_all (\<lambda>p. pod_Name p |\<in>| lastPodNamesOf (tracked storeAB {|''p1'', ''p2''|}) web)
     (livePods ?pods)"
    by (simp add: spec_defs ex_defs)
  from scale_latency_window [of ?st web ?pods ?l]
    scale_latency_window [of "tracked storeAB {|''p1'', ''p2''|}" web ?pods ?l]
  show ?thesis using loop old new w by (simp add: ex_grown ex_all_old)
qed

section \<open>The average startup latency\<close>

text \<open>
  Claim C4. When \<^verbatim>\<open>doUpdate\<close> returns \<^verbatim>\<open>(true, nil)\<close>, \<open>receivedCount = targetCount\<close> and the
  average gauge of the deployment holds the float64 total of \<^verbatim>\<open>End - Start\<close> over all
  records found for the containers of the live pods, old and new, divided by
  \<^verbatim>\<open>float64(receivedLen)\<close>. With plausible timestamps and a sum of latencies below
  \<open>2 ^ 53\<close>, that is the sum of the latencies divided by \<open>receivedCount\<close>, rounded once
  to binary64. For two containers with (start, end) = (100, 150) and (200, 260), both
  received, the gauge holds 55.
\<close>

theorem average_latency:
  "(snd (doUpdate st d pods) = (True, None) \<longrightarrow>
      receivedCount st (lastPodNamesOf st d) pods = targetCount pods \<and>
      deployPodsAvgStartupLatency (fst (doUpdate st d pods)) (deploy_Name d, deploy_Namespace d) =
        Some (f64_div (totalLatency (foundRecords st d pods))
                      (f64_of_int (receivedCount st (lastPodNamesOf st d) pods)))) \<and>
   (wellTimed (foundRecords st d pods) \<and> sum_list (durations (foundRecords st d pods)) < 2 ^ 53 \<and>
    0 < receivedCount st (lastPodNamesOf st d) pods \<and>
    receivedCount st (lastPodNamesOf st d) pods < 2 ^ 53 \<longrightarrow>
      f64_div (totalLatency (foundRecords st d pods))
              (f64_of_int (receivedCount st (lastPodNamesOf st d) pods)) =
        round_binary64 (of_int (sum_list (durations (foundRecords st d pods)))
                        / of_int (receivedCount st (lastPodNamesOf st d) pods))) \<and>
   foundRecords storeAB web [Some podA, Some podB] = [recA, recB] \<and>
   (Start recA, End recA, Start recB, End recB) = (100, 150, 200, 260) \<and>
   snd (doUpdate storeAB web [Some podA, Some podB]) = (True, None) \<and>
   deployPodsAvgStartupLatency (fst (doUpdate storeAB web [Some podA, Some podB])) (''web'', ''ns'') =
     Some (Finite 55)"
proof (intro conjI impI)
  assume p: "snd (doUpdate st d pods) = (True, None)"
  note pre = published_prefixed [OF p]
  from p show "receivedCount st (lastPodNamesOf st d) pods = targetCount pods"
    unfolding doUpdate_ok [OF pre] by (simp split: if_splits)
  from p show "deployPodsAvgStartupLatency (fst (doUpdate st d pods)) (deploy_Name d, deploy_Namespace d) =
        Some (f64_div (totalLatency (foundRecords st d pods))
                      (f64_of_int (receivedCount st (lastPodNamesOf st d) pods)))"
    unfolding doUpdate_ok [OF pre] foundRecords_def by (simp split: if_splits)
next
  assume "wellTimed (foundRecords st d pods) \<and> sum_list (durations (foundRecords st d pods)) < 2 ^ 53 \<and>
    0 < receivedCount st (lastPodNamesOf st d) pods \<and>
    receivedCount st (lastPodNamesOf st d) pods < 2 ^ 53"
  then show "f64_div (totalLatency (foundRecords st d pods))
              (f64_of_int (receivedCount st (lastPodNamesOf st d) pods)) =
        round_binary64 (of_int (sum_list (durations (foundRecords st d pods)))
                        / of_int (receivedCount st (lastPodNamesOf st d) pods))"
    by (intro average_exact) simp_all
next
  show "foundRecords storeAB web [Some podA, Some podB] = [recA, recB]"
    by (simp add: foundRecords_def spec_defs ex_defs)
  show "(Start recA, End recA, Start recB, End recB) = (100, 150, 200, 260)"
    by (simp add: recA_def recB_def)
  show "snd (doUpdate storeAB web [Some podA, Some podB]) = (True, None)"
    by (simp add: ex_fresh)
  show "deployPodsAvgStartupLatency (fst (doUpdate storeAB web [Some podA, Some podB])) (''web'', ''ns'') =
     Some (Finite 55)"
    by (simp add: ex_fresh)
qed

theorem average_latency_witness:
  "snd (doUpdate (tracked storeAB {|''p1''|}) web [Some podA, Some podB]) = (True, None) \<and>
   lookedUp (tracked storeAB {|''p1''|}) (lastPodNamesOf (tracked storeAB {|''p1''|}) web)
     [Some podA, Some podB] = [(False, Some recA), (True, Some recB)] \<and>
   foundRecords (tracked storeAB {|''p1''|}) web [Some podA, Some podB] = [recA, recB] \<and>
   wellTimed [recA, recB] \<and> durations [recA, recB] = [50, 60] \<and>
   totalLatency [recA, recB] = Finite 110 \<and>
   receivedCount (tracked storeAB {|''p1''|}) (lastPodNamesOf (tracked storeAB {|''p1''|}) web)
     [Some podA, Some podB] = 2 \<and>
   deployPodsAvgStartupLatency
     (fst (doUpdate (tracked storeAB {|''p1''|}) web [Some podA, Some podB])) (''web'', ''ns'') =
     Some (f64_div (Finite 110) (f64_of_int 2)) \<and>
   f64_div (Finite 110) (f64_of_int 2) = round_binary64 (110 / 2) \<and>
   round_binary64 (110 / 2) = Finite 55"
proof -
  let ?st = "tracked storeAB {|''p1''|}"
  let ?pods = "[Some podA, Some podB]"
  have p: "snd (doUpdate ?st web ?pods) = (True, None)" by (simp add: ex_grown)
  have l: "lookedUp ?st (lastPodNamesOf ?st web) ?pods = [(False, Some recA), (True, Some recB)]"
    by (simp add: spec_defs ex_defs)
  have fr: "foundRecords ?st web ?pods = [recA, recB]"
    by (simp add: foundRecords_def l foundAll_def)
  have wt: "wellTimed [recA, recB]" by (simp add: wellTimed_def recA_def recB_def)
  have du: "durations [recA, recB] = [50, 60]" by (simp add: durations_def recA_def recB_def)
  have t: "totalLatency [recA, recB] = Finite 110"
    by (simp add: spec_defs ex_defs f64_eval)
  have rc: "receivedCount ?st (lastPodNamesOf ?st web) ?pods = 2"
    by (simp add: spec_defs ex_defs)
  have n: "deploy_Name web = ''web''" "deploy_Namespace web = ''ns''" by (simp_all add: web_def)
  have v: "round_binary64 (110 / 2) = Finite 55" by (simp add: f64_eval)
  note a = average_latency [of ?st web ?pods, THEN conjunct1, rule_format, OF p]
  note b = average_latency [of ?st web ?pods, THEN conjunct2, THEN conjunct1, rule_format]
  have e: "f64_div (Finite 110) (f64_of_int 2) = round_binary64 (110 / 2)"
    using b unfolding fr t rc du using wt by simp
  from a show ?thesis unfolding fr t rc n using p l fr wt du t rc v e by simp
qed

section \<open>Prefix violation\<close>

text \<open>
  Claim C5. If a container status of a live pod has an ID without the transport prefix,
  \<^verbatim>\<open>doUpdate\<close> returns \<^verbatim>\<open>false\<close> with an error and the state it was given, and the
  scheduler's visit of the deployment leaves the whole state (both gauges and the
  tracked pod sets) as it was.
\<close>

theorem prefix_violation:
  assumes "Some p \<in> set pods"
    and "c \<in> set (pod_Status_ContainerStatuses p)"
    and "\<not> HasPrefix (cs_ContainerID c) containerNamePrefix"
  shows "(\<exists>e. doUpdate st d pods = (st, False, Some e)) \<and> visitDeployment st (Some d) pods = st"
proof -
  have "\<not> allPrefixed pods"
    using assms by (auto simp add: allPrefixed_def list_all_iff livePods_set)
  from doUpdate_bad [OF this, of st d] obtain e where e: "doUpdate st d pods = (st, False, Some e)"
    by blast
  then show ?thesis by (auto simp add: visitDeployment_def Let_def)
qed

theorem prefix_violation_witness:
  "Some dockerPod \<in> set [Some podB, Some dockerPod] \<and>
   \<lparr>cs_Name = ''app'', cs_ContainerID = ''docker://c9''\<rparr> \<in> set (pod_Status_ContainerStatuses dockerPod) \<and>
   \<not> HasPrefix ''docker://c9'' containerNamePrefix \<and>
   doUpdate storeA web [Some podB, Some dockerPod] =
     (storeA, False, Some (NotRunningByContainerd ''app'' ''docker://c9'' ''p4'' ''ns'')) \<and>
   shouldUpdate storeA depKey [Some podB, Some dockerPod] \<and>
   visitDeployment storeA (Some web) [Some podB, Some dockerPod] = storeA"
proof -
  have a: "Some dockerPod \<in> set [Some podB, Some dockerPod]" by simp
  have b: "\<lparr>cs_Name = ''app'', cs_ContainerID = ''docker://c9''\<rparr>
            \<in> set (pod_Status_ContainerStatuses dockerPod)" by (simp add: dockerPod_def)
  have c: "\<not> HasPrefix (cs_ContainerID \<lparr>cs_Name = ''app'', cs_ContainerID = ''docker://c9''\<rparr>)
             containerNamePrefix"
    by (simp add: HasPrefix_def containerNamePrefix_def)
  have g: "shouldUpdate storeA depKey [Some podB, Some dockerPod]"
    by (simp add: shouldUpdate_def ex_defs Trim_def)
  from prefix_violation [OF a b c, of storeA web] show ?thesis using a b c g by (simp add: ex_docker)
qed

section \<open>The tracked pod sets\<close>

lemma visitDeployment_tracked:
  "updatedDeploy (visitDeployment st (Some d) pods) =
     (if deploy_Spec_Selector d \<noteq> None \<and>
         shouldUpdate st \<lparr>name = deploy_Name d, namespace = deploy_Namespace d\<rparr> pods \<and>
         snd (doUpdate st d pods) = (True, None)
      then (updatedDeploy st)
             (\<lparr>name = deploy_Name d, namespace = deploy_Namespace d\<rparr> \<mapsto> getPodNames pods)
      else updatedDeploy st)"
proof -
  obtain st1 u e where r: "doUpdate st d pods = (st1, u, e)"
    by (cases "doUpdate st d pods") auto
  have t: "updatedDeploy st1 = updatedDeploy st"
    using doUpdate_tracked [of st d pods] r by simp
  have ne: "e \<noteq> None \<Longrightarrow> \<not> u"
    using doUpdate_result [of st d pods] r by auto
  show ?thesis
    using r t ne by (cases e) (auto simp add: visitDeployment_def Let_def)
qed

lemma visitDeployment_dom:
  "dom (updatedDeploy st) \<subseteq> dom (updatedDeploy (visitDeployment st d pods))"
proof (cases d)
  case None
  then show ?thesis by (simp add: visitDeployment_def)
next
  case (Some x)
  show ?thesis unfolding Some visitDeployment_tracked by auto
qed

lemma cycle_dom: "dom (updatedDeploy st) \<subseteq> dom (updatedDeploy (cycle st ds))"
proof (induction st ds rule: cycle.induct)
  case (1 st)
  show ?case by simp
next
  case (2 st d pods ds)
  have "dom (updatedDeploy st) \<subseteq> dom (updatedDeploy (visitDeployment st d pods))"
    by (rule visitDeployment_dom)
  also have "\<dots> \<subseteq> dom (updatedDeploy (cycle (visitDeployment st d pods) ds))" by (rule "2.IH")
  finally show ?case by simp
qed

lemma receiveStartupInfo_tracked:
  "updatedDeploy (fst (receiveStartupInfo st r)) = updatedDeploy st"
  by (simp add: receiveStartupInfo_def Let_def split: option.split)

text \<open>
  Claim C9. The visit of a deployment overwrites its tracked pod set with the names of
  the live pods exactly when \<^verbatim>\<open>doUpdate\<close> is reached (the selector is not nil and the
  gate answers true) and returns \<^verbatim>\<open>(true, nil)\<close>; in every other case the tracked pod
  sets are as before. \<^verbatim>\<open>doUpdate\<close> and \<^verbatim>\<open>receiveStartupInfo\<close> never touch them, and
  over a whole cycle no deployment loses its tracked pod set.
\<close>

theorem tracked_set_discipline:
  "updatedDeploy (visitDeployment st (Some d) pods) =
     (if deploy_Spec_Selector d \<noteq> None \<and>
         shouldUpdate st \<lparr>name = deploy_Name d, namespace = deploy_Namespace d\<rparr> pods \<and>
         snd (doUpdate st d pods) = (True, None)
      then (updatedDeploy st)
             (\<lparr>name = deploy_Name d, namespace = deploy_Namespace d\<rparr> \<mapsto> getPodNames pods)
      else updatedDeploy st) \<and>
   updatedDeploy (fst (doUpdate st d pods)) = updatedDeploy st \<and>
   updatedDeploy (fst (receiveStartupInfo st r)) = updatedDeploy st \<and>
   dom (updatedDeploy st) \<subseteq> dom (updatedDeploy (cycle st ds))"
  using visitDeployment_tracked [of st d pods] doUpdate_tracked [of st d pods]
    receiveStartupInfo_tracked [of st r] cycle_dom [of st ds]
  by simp

lemma ex_gate: "shouldUpdate storeAB depKey [Some podA, Some podB]"
  "shouldUpdate storeA depKey [Some podA, Some podB]"
  by (simp_all add: shouldUpdate_def ex_defs Trim_def)

theorem tracked_set_discipline_witness:
  "snd (doUpdate storeAB web [Some podA, Some podB]) = (True, None) \<and>
   updatedDeploy (visitDeployment storeAB (Some web) [Some podA, Some podB]) =
     [depKey \<mapsto> {|''p1'', ''p2''|}] \<and>
   snd (doUpdate storeA web [Some podA, Some podB]) = (False, None) \<and>
   updatedDeploy (visitDeployment storeA (Some web) [Some podA, Some podB]) = updatedDeploy storeA \<and>
   (\<exists>e. snd (doUpdate storeA web [Some podB, Some dockerPod]) = (False, Some e)) \<and>
   updatedDeploy (visitDeployment storeA (Some web) [Some podB, Some dockerPod]) = updatedDeploy storeA"
proof -
  have k: "\<lparr>name = deploy_Name web, namespace = deploy_Namespace web\<rparr> = depKey"
    by (simp add: web_def depKey_def)
  have n: "getPodNames [Some podA, Some podB] = {|''p1'', ''p2''|}"
    by (auto simp add: getPodNames_def podA_def podB_def)
  have s: "deploy_Spec_Selector web \<noteq> None" by (simp add: web_def)
  have u: "updatedDeploy storeAB = Map.empty" by (simp add: ex_defs)
  note t1 = tracked_set_discipline [of storeAB web "[Some podA, Some podB]", THEN conjunct1]
  note t2 = tracked_set_discipline [of storeA web "[Some podA, Some podB]", THEN conjunct1]
  note t3 = tracked_set_discipline [of storeA web "[Some podB, Some dockerPod]", THEN conjunct1]
  show ?thesis
    unfolding t1 t2 t3 k by (simp add: ex_fresh ex_partial ex_docker ex_gate n s u)
qed

section \<open>The denominator counts declared containers\<close>

text \<open>
  Claim C10. There is an input with a live pod that reports fewer container statuses
  than its spec declares containers, all reported ones present in the store, on which
  \<^verbatim>\<open>doUpdate\<close> finds \<open>receivedCount = targetCount\<close> and publishes; the average is the
  total over the reported containers only, divided by the larger count of declared
  containers: one container with latency 50 in a pod declaring two gives 25.
\<close>

theorem spec_count_denominator:
  "\<exists>st d pods p.
     Some p \<in> set pods \<and>
     length (pod_Status_ContainerStatuses p) < length (pod_Spec_Containers p) \<and>
     unreceivedCount (lookedUp st (lastPodNamesOf st d) pods) = 0 \<and>
     int (length (foundRecords st d pods)) < targetCount pods \<and>
     receivedCount st (lastPodNamesOf st d) pods = targetCount pods \<and>
     snd (doUpdate st d pods) = (True, None) \<and>
     deployPodsAvgStartupLatency (fst (doUpdate st d pods)) (deploy_Name d, deploy_Namespace d) =
       Some (f64_div (totalLatency (foundRecords st d pods))
                     (f64_of_int (targetCount pods))) \<and>
     totalLatency (foundRecords st d pods) = Finite 50 \<and>
     targetCount pods = 2 \<and>
     deployPodsAvgStartupLatency (fst (doUpdate st d pods)) (deploy_Name d, deploy_Namespace d) =
       Some (Finite 25)"
proof (intro exI conjI)
  show "Some podShort \<in> set [Some podShort]" by simp
  show "length (pod_Status_ContainerStatuses podShort) < length (pod_Spec_Containers podShort)"
    by (simp add: podShort_def)
  show "unreceivedCount (lookedUp storeA (lastPodNamesOf storeA web) [Some podShort]) = 0"
    by (simp add: foundRecords_def spec_defs ex_defs podShort_def)
  show "int (length (foundRecords storeA web [Some podShort]))
          < targetCount [Some podShort]"
    by (simp add: foundRecords_def spec_defs ex_defs podShort_def)
  show rc: "receivedCount storeA (lastPodNamesOf storeA web) [Some podShort] = targetCount [Some podShort]"
    by (simp add: foundRecords_def spec_defs ex_defs podShort_def)
  show p: "snd (doUpdate storeA web [Some podShort]) = (True, None)" by (simp add: ex_short)
  have pre: "allPrefixed [Some podShort]" by (simp add: foundRecords_def spec_defs ex_defs podShort_def)
  from p show "deployPodsAvgStartupLatency (fst (doUpdate storeA web [Some podShort]))
       (deploy_Name web, deploy_Namespace web) =
       Some (f64_div (totalLatency (foundRecords storeA web [Some podShort]))
                     (f64_of_int (targetCount [Some podShort])))"
    unfolding doUpdate_ok [OF pre] rc foundRecords_def by (simp split: if_splits)
  show "totalLatency (foundRecords storeA web [Some podShort]) = Finite 50"
    by (simp add: foundRecords_def spec_defs ex_defs podShort_def f64_eval)
  show "targetCount [Some podShort] = 2" by (simp add: foundRecords_def spec_defs ex_defs podShort_def)
  show "deployPodsAvgStartupLatency (fst (doUpdate storeA web [Some podShort]))
       (deploy_Name web, deploy_Namespace web) = Some (Finite 25)"
    by (simp add: ex_short) (simp add: web_def)
qed

end
